theory Spec2Isabelle
  imports Complex_Main "HOL-Library.Word"
begin

section \<open>mharender: the image-to-mesh pipeline of main.py and app.py\<close>

text \<open>
  Conventions of the embedding.
  \<^item> A Python float is modelled by the real number it denotes; rounding of float
    arithmetic is not modelled.
  \<^item> A vertex is the Python list \<open>[x, y, z]\<close>: a list of reals. Indexing past the end
    raises \<open>IndexError\<close>, which is a branch of the model.
  \<^item> A face is a Python list of integer indices.
  \<^item> A numpy array is its shape together with its indexing function.
  \<^item> Exceptions are values of the type \<open>error\<close>.
\<close>

subsection \<open>Data model\<close>

datatype error =
    NotImplementedError
  | ImportError
  | FileNotFoundError
  | AttributeError
  | Cv2Error
  | IndexError
  | TypeError
  | OSError
  | SystemExit

type_synonym vertex = "real list"
type_synonym face = "int list"

text \<open>The array returned by \<open>cv2.imread\<close>: shape \<open>(h, w, c)\<close> of 8-bit samples.
  A two-dimensional array \<open>(h, w)\<close> is the case \<open>c = 1\<close>.\<close>

record image =
  img_h :: nat
  img_w :: nat
  img_c :: nat
  img_at :: "nat \<Rightarrow> nat \<Rightarrow> nat \<Rightarrow> 8 word"

text \<open>The two-dimensional float array \<open>height_map\<close>: \<open>shape = (h, w)\<close>, indexed \<open>[y, x]\<close>.\<close>

record height_map =
  hm_h :: nat
  hm_w :: nat
  hm_at :: "nat \<Rightarrow> nat \<Rightarrow> real"

subsection \<open>Python primitives\<close>

definition py_index :: "'a list \<Rightarrow> nat \<Rightarrow> error + 'a" where
  "py_index xs i = (if i < length xs then Inr (xs ! i) else Inl IndexError)"

definition err_bind :: "error + 'a \<Rightarrow> ('a \<Rightarrow> error + 'b) \<Rightarrow> error + 'b" where
  "err_bind m f = (case m of Inl e \<Rightarrow> Inl e | Inr x \<Rightarrow> f x)"

text \<open>A list comprehension \<open>[f(v) for v in xs]\<close> whose body may raise: the first
  exception ends the comprehension.\<close>

fun comprehension :: "('a \<Rightarrow> error + 'b) \<Rightarrow> 'a list \<Rightarrow> error + 'b list" where
  "comprehension f [] = Inr []"
| "comprehension f (v # vs) =
     err_bind (f v) (\<lambda>y. err_bind (comprehension f vs) (\<lambda>ys. Inr (y # ys)))"

subsection \<open>create_3d_mesh (main.py, lines 35-49)\<close>

text \<open>The two nested \<open>for\<close> loops append one vertex per grid cell; \<open>faces\<close> is
  initialised to the empty list and never appended to.\<close>

definition create_3d_mesh :: "height_map \<Rightarrow> vertex list \<times> face list" where
  "create_3d_mesh height_map =
     (let vertices = [];
          faces = [];
          h = hm_h height_map;
          w = hm_w height_map;
          vertices =
            fold (\<lambda>y vertices.
                    fold (\<lambda>x vertices.
                            let z = hm_at height_map y x
                            in vertices @ [[real x, real y, z]])
                         [0..<w] vertices)
                 [0..<h] vertices
      in (vertices, faces))"

subsection \<open>apply_style (main.py, lines 52-61)\<close>

text \<open>The element \<open>[v[0], v[1], v[2] * m]\<close> of the two comprehensions.\<close>

definition scaled_vertex :: "real \<Rightarrow> vertex \<Rightarrow> error + vertex" where
  "scaled_vertex m v =
     err_bind (py_index v 0) (\<lambda>x.
     err_bind (py_index v 1) (\<lambda>y.
     err_bind (py_index v 2) (\<lambda>z. Inr [x, y, z * m])))"

definition apply_style :: "vertex list \<Rightarrow> string \<Rightarrow> error + vertex list" where
  "apply_style vertices style =
     (if style = ''classic'' then comprehension (scaled_vertex 0.5) vertices
      else if style = ''nostalgic'' then comprehension (scaled_vertex 1.5) vertices
      else Inr vertices)"

subsection \<open>apply_texture (main.py, lines 64-68)\<close>

definition apply_texture :: "vertex list \<Rightarrow> image \<Rightarrow> vertex list" where
  "apply_texture vertices texture_image = vertices"

subsection \<open>The environment: library calls and the file system\<close>

text \<open>
  The library functions that main.py calls are parameters of the model:
  \<^item> \<open>cv2_present\<close>: whether \<open>import cv2\<close> succeeded (otherwise \<open>cv2 = None\<close>);
  \<^item> \<open>splitext_lower p\<close>: \<open>os.path.splitext(p)[1].lower()\<close>;
  \<^item> \<open>imread p\<close>: \<open>cv2.imread(p)\<close>, which returns \<open>None\<close> when the file cannot be
    read or decoded;
  \<^item> \<open>bgr2gray b g r\<close>: the 8-bit luminance that \<open>cv2.cvtColor\<close> computes for a pixel;
  \<^item> \<open>repr_float x\<close>: the text an f-string produces for a float;
  \<^item> \<open>writable p\<close>: whether \<open>open(p, "w")\<close> succeeds for the string \<open>p\<close>.
\<close>

record env =
  cv2_present :: bool
  splitext_lower :: "string \<Rightarrow> string"
  imread :: "string \<Rightarrow> image option"
  bgr2gray :: "8 word \<Rightarrow> 8 word \<Rightarrow> 8 word \<Rightarrow> 8 word"
  repr_float :: "real \<Rightarrow> string"
  writable :: "string \<Rightarrow> bool"

record world =
  files :: "string \<rightharpoonup> string"
  stdout :: "string list"

subsection \<open>load_image (main.py, lines 13-25)\<close>

definition load_image :: "env \<Rightarrow> string \<Rightarrow> error + image" where
  "load_image env file_path =
     (let ext = splitext_lower env file_path
      in if ext = ''.pdf'' then Inl NotImplementedError
         else if ext = ''.dwg'' then Inl NotImplementedError
         else if \<not> cv2_present env then Inl ImportError
         else (case imread env file_path of
                 None \<Rightarrow> Inl FileNotFoundError
               | Some img \<Rightarrow> Inr img))"

subsection \<open>generate_height_map (main.py, lines 28-32)\<close>

text \<open>\<open>cv2.cvtColor(image, cv2.COLOR_BGR2GRAY)\<close>: OpenCV rejects an empty source and a
  source whose channel count is neither 3 nor 4 (it raises \<open>cv2.error\<close>); otherwise the
  result is the single-channel array of the pixels' luminances, of the same height and
  width.\<close>

definition cvtColor_BGR2GRAY :: "env \<Rightarrow> image \<Rightarrow> error + image" where
  "cvtColor_BGR2GRAY env src =
     (if img_h src = 0 \<or> img_w src = 0 then Inl Cv2Error
      else if img_c src = 3 \<or> img_c src = 4 then
        Inr \<lparr>img_h = img_h src, img_w = img_w src, img_c = 1,
             img_at = (\<lambda>y x c. bgr2gray env (img_at src y x 0) (img_at src y x 1) (img_at src y x 2))\<rparr>
      else Inl Cv2Error)"

definition generate_height_map :: "env \<Rightarrow> image \<Rightarrow> error + height_map" where
  "generate_height_map env img =
     (if \<not> cv2_present env then Inl AttributeError
      else err_bind (cvtColor_BGR2GRAY env img) (\<lambda>gray.
        Inr \<lparr>hm_h = img_h gray, hm_w = img_w gray,
             hm_at = (\<lambda>y x. real (unat (img_at gray y x 0)) / 255)\<rparr>))"

subsection \<open>save_obj (main.py, lines 71-78)\<close>

text \<open>Python's \<open>str\<close> of an integer.\<close>

definition digit :: "nat \<Rightarrow> char" where
  "digit d = ''0123456789'' ! d"

fun str_nat :: "nat \<Rightarrow> string" where
  "str_nat n = (if n < 10 then [digit n] else str_nat (n div 10) @ [digit (n mod 10)])"

declare str_nat.simps [simp del]

definition str_int :: "int \<Rightarrow> string" where
  "str_int i = (if i < 0 then CHR ''-'' # str_nat (nat (- i)) else str_nat (nat i))"

text \<open>\<open>sep.join(parts)\<close>.\<close>

fun join :: "string \<Rightarrow> string list \<Rightarrow> string" where
  "join sep [] = []"
| "join sep [p] = p"
| "join sep (p # q # ps) = p @ sep @ join sep (q # ps)"

text \<open>
  Python binds arguments by position and checks no types, and app.py calls \<open>save_obj\<close>
  with its arguments in another order than main.py. So the parameters of \<open>save_obj\<close> range
  over the three kinds of value that the callers pass: a string, a list of vertices
  (lists of floats) and a list of faces (lists of integers).
\<close>

datatype pyarg = PStr string | PVertices "vertex list" | PFaces "face list"

text \<open>\<open>open(output_path, "w")\<close>: a list is not a path (\<open>TypeError\<close>); a string names
  a file that is created or truncated.\<close>

definition py_open_w :: "env \<Rightarrow> pyarg \<Rightarrow> world \<Rightarrow> error + string \<times> world" where
  "py_open_w env output_path w =
     (case output_path of
        PStr p \<Rightarrow>
          if writable env p then Inr (p, w\<lparr>files := (files w)(p \<mapsto> [])\<rparr>) else Inl OSError
      | PVertices _ \<Rightarrow> Inl TypeError
      | PFaces _ \<Rightarrow> Inl TypeError)"

text \<open>A \<open>for\<close> loop of \<open>f.write\<close> calls: each line is built completely before it is
  written; an exception leaves the lines written so far.\<close>

fun write_lines :: "('a \<Rightarrow> error + string) \<Rightarrow> 'a list \<Rightarrow> string \<Rightarrow> string \<times> error option" where
  "write_lines line [] out = (out, None)"
| "write_lines line (v # vs) out =
     (case line v of
        Inl e \<Rightarrow> (out, Some e)
      | Inr s \<Rightarrow> write_lines line vs (out @ s))"

text \<open>The line \<open>f"v {v[0]} {v[1]} {v[2]}\n"\<close>, for elements formatted by \<open>fmt\<close>.\<close>

definition vertex_line :: "('a \<Rightarrow> string) \<Rightarrow> 'a list \<Rightarrow> error + string" where
  "vertex_line fmt v =
     err_bind (py_index v 0) (\<lambda>x.
     err_bind (py_index v 1) (\<lambda>y.
     err_bind (py_index v 2) (\<lambda>z.
       Inr (''v '' @ fmt x @ '' '' @ fmt y @ '' '' @ fmt z @ [CHR 0x0A]))))"

text \<open>The line \<open>"f " + " ".join(str(idx + 1) for idx in face) + "\n"\<close>, where \<open>tok idx\<close>
  is \<open>str(idx + 1)\<close>.\<close>

definition face_line :: "('a \<Rightarrow> error + string) \<Rightarrow> 'a list \<Rightarrow> error + string" where
  "face_line tok face =
     err_bind (comprehension tok face) (\<lambda>toks.
       Inr (''f '' @ join '' '' toks @ [CHR 0x0A]))"

text \<open>The first loop, \<open>for v in vertices\<close>. Iterating over a string yields its
  characters as one-character strings, for which \<open>v[1]\<close> raises \<open>IndexError\<close>.\<close>

definition write_vertices :: "env \<Rightarrow> pyarg \<Rightarrow> string \<Rightarrow> string \<times> error option" where
  "write_vertices env vertices out =
     (case vertices of
        PVertices vs \<Rightarrow> write_lines (vertex_line (repr_float env)) vs out
      | PFaces fs \<Rightarrow> write_lines (vertex_line str_int) fs out
      | PStr s \<Rightarrow> write_lines (vertex_line (\<lambda>c. [c])) (map (\<lambda>c. [c]) s) out)"

text \<open>The second loop, \<open>for face in faces\<close>. For a character \<open>idx\<close> of a string,
  \<open>idx + 1\<close> raises \<open>TypeError\<close>.\<close>

definition write_faces :: "env \<Rightarrow> pyarg \<Rightarrow> string \<Rightarrow> string \<times> error option" where
  "write_faces env faces out =
     (case faces of
        PFaces fs \<Rightarrow> write_lines (face_line (\<lambda>idx. Inr (str_int (idx + 1)))) fs out
      | PVertices vs \<Rightarrow> write_lines (face_line (\<lambda>idx. Inr (repr_float env (idx + 1)))) vs out
      | PStr s \<Rightarrow> write_lines (face_line (\<lambda>idx. Inl TypeError)) (map (\<lambda>c. [c]) s) out)"

definition save_obj :: "env \<Rightarrow> pyarg \<Rightarrow> pyarg \<Rightarrow> pyarg \<Rightarrow> world \<Rightarrow> world \<times> error option" where
  "save_obj env vertices faces output_path w =
     (case py_open_w env output_path w of
        Inl e \<Rightarrow> (w, Some e)
      | Inr (p, w1) \<Rightarrow>
          (case write_vertices env vertices [] of
             (out, Some e) \<Rightarrow> (w1\<lparr>files := (files w1)(p \<mapsto> out)\<rparr>, Some e)
           | (out, None) \<Rightarrow>
               (case write_faces env faces out of
                  (out', r) \<Rightarrow> (w1\<lparr>files := (files w1)(p \<mapsto> out')\<rparr>, r))))"

subsection \<open>main (main.py, lines 81-107)\<close>

text \<open>The command line after \<open>argparse\<close> has split it: the positional input file and
  the values of \<open>--style\<close>, \<open>--texture\<close> and \<open>--output\<close> (with their defaults
  \<open>modern\<close>, \<open>None\<close> and \<open>output.obj\<close> filled in by the caller).\<close>

record args =
  arg_input_file :: string
  arg_style :: string
  arg_texture :: "string option"
  arg_output :: string

definition style_choices :: "string list" where
  "style_choices = [''modern'', ''classic'', ''nostalgic'']"

text \<open>\<open>if args.texture:\<close> holds for a string that is not empty.\<close>

definition truthy :: "string option \<Rightarrow> bool" where
  "truthy t = (case t of None \<Rightarrow> False | Some s \<Rightarrow> s \<noteq> [])"

definition main :: "env \<Rightarrow> args \<Rightarrow> world \<Rightarrow> world \<times> error option" where
  "main env a w =
     (if arg_style a \<notin> set style_choices then (w, Some SystemExit)
      else case load_image env (arg_input_file a) of
        Inl e \<Rightarrow> (w, Some e)
      | Inr img \<Rightarrow>
      (case generate_height_map env img of
        Inl e \<Rightarrow> (w, Some e)
      | Inr height_map \<Rightarrow>
      (case create_3d_mesh height_map of (vertices, faces) \<Rightarrow>
      (case apply_style vertices (arg_style a) of
        Inl e \<Rightarrow> (w, Some e)
      | Inr vertices \<Rightarrow>
      (case (if truthy (arg_texture a)
             then err_bind (load_image env (the (arg_texture a)))
                    (\<lambda>texture_img. Inr (apply_texture vertices texture_img))
             else Inr vertices) of
        Inl e \<Rightarrow> (w, Some e)
      | Inr vertices \<Rightarrow>
      (case save_obj env (PVertices vertices) (PFaces faces) (PStr (arg_output a)) w of
        (w', Some e) \<Rightarrow> (w', Some e)
      | (w', None) \<Rightarrow>
          (w'\<lparr>stdout := stdout w' @ [''Model saved to '' @ arg_output a]\<rparr>, None)))))))"

subsection \<open>The Convert flow of app.py: texture block (lines 72-84) and save step (lines 86-88)\<close>

text \<open>The texture block: \<open>tex_path\<close> is the temporary file holding the upload, \<open>None\<close>
  when no texture was uploaded. \<open>except Exception\<close> catches every error of
  \<open>load_image\<close> and turns it into the warning \<open>st.warning\<close>; the result is the vertex
  list and the warning shown, if any.\<close>

definition app_texture_block ::
  "env \<Rightarrow> string option \<Rightarrow> vertex list \<Rightarrow> vertex list \<times> error option" where
  "app_texture_block env tex_path vertices_styled =
     (case tex_path of
        None \<Rightarrow> (vertices_styled, None)
      | Some p \<Rightarrow>
          (case load_image env p of
             Inl e \<Rightarrow> (vertices_styled, Some e)
           | Inr texture_img \<Rightarrow> (apply_texture vertices_styled texture_img, None)))"

text \<open>The call \<open>save_obj(output_path, vertices_styled, faces)\<close> of line 88: the three
  values are bound, in this order, to the parameters \<open>vertices\<close>, \<open>faces\<close> and
  \<open>output_path\<close> of \<open>save_obj\<close>.\<close>

definition app_save_step ::
  "env \<Rightarrow> string \<Rightarrow> vertex list \<Rightarrow> face list \<Rightarrow> world \<Rightarrow> world \<times> error option" where
  "app_save_step env output_path vertices_styled faces w =
     save_obj env (PStr output_path) (PVertices vertices_styled) (PFaces faces) w"

subsection \<open>Reading an OBJ file back\<close>

text \<open>
  The round-trip property of the specification speaks of parsing the \<open>v\<close>, \<open>vt\<close> and
  \<open>f\<close> lines of the written file. This reader follows the specification's description of
  the file format: lines are separated by newlines, fields by blanks; a \<open>v\<close> line carries
  three numbers, a \<open>vt\<close> line two, and an \<open>f\<close> line 1-based indices, each optionally
  followed by \<open>/\<close> and a texture index. The function \<open>rd\<close> reads the text of a float.
\<close>

fun split_on :: "char \<Rightarrow> string \<Rightarrow> string list" where
  "split_on d [] = [[]]"
| "split_on d (c # cs) =
     (if c = d then [] # split_on d cs
      else (case split_on d cs of [] \<Rightarrow> [[c]] | t # ts \<Rightarrow> (c # t) # ts))"

definition words_of :: "string \<Rightarrow> string list" where
  "words_of l = filter (\<lambda>t. t \<noteq> []) (split_on CHR '' '' l)"

definition nat_of_digits :: "string \<Rightarrow> nat" where
  "nat_of_digits s = foldl (\<lambda>n c. 10 * n + (of_char c - 48)) 0 s"

definition read_int :: "string \<Rightarrow> int" where
  "read_int s =
     (case s of
        [] \<Rightarrow> 0
      | c # ds \<Rightarrow> if c = CHR ''-'' then - int (nat_of_digits ds) else int (nat_of_digits s))"

type_synonym parsed = "vertex list \<times> (real \<times> real) list \<times> face list"

definition parse_line :: "(string \<Rightarrow> real) \<Rightarrow> string \<Rightarrow> parsed \<Rightarrow> parsed" where
  "parse_line rd l acc =
     (case acc of (vs, uvs, fs) \<Rightarrow>
       (case words_of l of
          [] \<Rightarrow> (vs, uvs, fs)
        | t # ts \<Rightarrow>
            if t = ''v'' \<and> length ts = 3 then (vs @ [map rd ts], uvs, fs)
            else if t = ''vt'' \<and> length ts = 2 then (vs, uvs @ [(rd (ts ! 0), rd (ts ! 1))], fs)
            else if t = ''f'' then
              (vs, uvs, fs @ [map (\<lambda>tok. read_int (takeWhile (\<lambda>c. c \<noteq> CHR ''/'') tok) - 1) ts])
            else (vs, uvs, fs)))"

definition parse_obj :: "(string \<Rightarrow> real) \<Rightarrow> string \<Rightarrow> parsed" where
  "parse_obj rd text = fold (parse_line rd) (split_on (CHR 0x0A) text) ([], [], [])"

text \<open>The text of a float can be read back: \<open>rd\<close> inverts \<open>repr_float\<close> at \<open>x\<close>, and the
  text is not empty and contains neither a blank nor a newline.\<close>

definition float_text_ok :: "env \<Rightarrow> (string \<Rightarrow> real) \<Rightarrow> real \<Rightarrow> bool" where
  "float_text_ok env rd x \<longleftrightarrow>
     rd (repr_float env x) = x \<and> repr_float env x \<noteq> [] \<and>
     CHR '' '' \<notin> set (repr_float env x) \<and> CHR 0x0A \<notin> set (repr_float env x)"

text \<open>Serialising a mesh given as vertices, UVs and faces: \<open>save_obj\<close> has parameters for
  the vertices and the faces only, so these are what a caller can pass.\<close>

definition serialize_mesh ::
  "env \<Rightarrow> vertex list \<times> (real \<times> real) list \<times> face list \<Rightarrow> string \<Rightarrow> world \<Rightarrow> world \<times> error option"
where
  "serialize_mesh env mesh output_path w =
     (case mesh of (vertices, uvs, faces) \<Rightarrow>
        save_obj env (PVertices vertices) (PFaces faces) (PStr output_path) w)"

text \<open>The UV sequence that the specification describes for a W by H grid:
  \<open>(col/(W-1), row/(H-1))\<close> for each cell, in row-major order.\<close>

definition planar_uvs :: "nat \<Rightarrow> nat \<Rightarrow> (real \<times> real) list" where
  "planar_uvs W H =
     concat (map (\<lambda>row. map (\<lambda>col. (real col / real (W - 1), real row / real (H - 1))) [0..<W])
                 [0..<H])"

subsection \<open>Auxiliary notions used in the statements\<close>

text \<open>The row-major enumeration of an \<open>h\<close> by \<open>w\<close> grid.\<close>

definition grid :: "(nat \<Rightarrow> nat \<Rightarrow> 'a) \<Rightarrow> nat \<Rightarrow> nat \<Rightarrow> 'a list" where
  "grid f h w = concat (map (\<lambda>y. map (f y) [0..<w]) [0..<h])"

text \<open>The line that \<open>save_obj\<close> writes for a vertex and for a face, and the text of a
  whole file.\<close>

definition vertex_text :: "env \<Rightarrow> vertex \<Rightarrow> string" where
  "vertex_text env v =
     ''v '' @ repr_float env (v ! 0) @ '' '' @ repr_float env (v ! 1) @ '' '' @
     repr_float env (v ! 2) @ [CHR 0x0A]"

definition face_text :: "face \<Rightarrow> string" where
  "face_text face = ''f '' @ join '' '' (map (\<lambda>idx. str_int (idx + 1)) face) @ [CHR 0x0A]"

definition obj_text :: "env \<Rightarrow> vertex list \<Rightarrow> face list \<Rightarrow> string" where
  "obj_text env vs fs = concat (map (vertex_text env) vs) @ concat (map face_text fs)"

text \<open>The same lines without their final newline.\<close>

definition vertex_body :: "env \<Rightarrow> vertex \<Rightarrow> string" where
  "vertex_body env v = join '' '' (''v'' # map (repr_float env) v)"

definition face_body :: "face \<Rightarrow> string" where
  "face_body face = ''f '' @ join '' '' (map (\<lambda>idx. str_int (idx + 1)) face)"

text \<open>The multiplier that each style applies to the z component: 0.5 for "classic",
  1.5 for "nostalgic", and 1 for "modern" and for every other string, which
  \<open>apply_style\<close> returns as it is.\<close>

definition style_multiplier :: "string \<Rightarrow> real" where
  "style_multiplier style =
     (if style = ''classic'' then 0.5 else if style = ''nostalgic'' then 1.5 else 1.0)"

text \<open>The vertices that the pipeline builds from a decoded image: the grid of
  \<open>create_3d_mesh\<close> over the height map of the image, with the z component scaled by
  the style.\<close>

definition pipeline_vertices :: "env \<Rightarrow> image \<Rightarrow> string \<Rightarrow> vertex list" where
  "pipeline_vertices env img style =
     map (\<lambda>v. [v ! 0, v ! 1, v ! 2 * style_multiplier style])
       (grid (\<lambda>y x. [real x, real y,
                      real (unat (bgr2gray env (img_at img y x 0) (img_at img y x 1)
                                               (img_at img y x 2))) / 255])
             (img_h img) (img_w img))"

subsection \<open>Concrete inputs\<close>

text \<open>A 2 by 2 height field of zero samples, and a 2 rows by 3 columns height field
  whose sample at \<open>(y, x)\<close> is \<open>(y + x) / 4\<close>.\<close>

definition flat_2x2 :: height_map where
  "flat_2x2 = \<lparr>hm_h = 2, hm_w = 2, hm_at = (\<lambda>y x. 0)\<rparr>"

definition ramp_2x3 :: height_map where
  "ramp_2x3 = \<lparr>hm_h = 2, hm_w = 3, hm_at = (\<lambda>y x. real (y + x) / 4)\<rparr>"

text \<open>A 1 by 1 image of three channels (as \<open>cv2.imread\<close> decodes it) and one of a
  single channel.\<close>

definition bgr_1x1 :: image where
  "bgr_1x1 = \<lparr>img_h = 1, img_w = 1, img_c = 3, img_at = (\<lambda>y x c. 255)\<rparr>"

definition gray_1x1 :: image where
  "gray_1x1 = \<lparr>img_h = 1, img_w = 1, img_c = 1, img_at = (\<lambda>y x c. 255)\<rparr>"

text \<open>A 2 by 2 image of three channels: white on the diagonal, black elsewhere.\<close>

definition bgr_2x2 :: image where
  "bgr_2x2 = \<lparr>img_h = 2, img_w = 2, img_c = 3, img_at = (\<lambda>y x c. if y = x then 255 else 0)\<rparr>"

text \<open>A concrete environment. The luminance is the weighting 0.114 B + 0.587 G + 0.299 R
  in 14-bit fixed point, which maps white to 255 and black to 0. The float texts are
  those of Python for the four values that occur in the examples. The paths of the
  examples all end in a three-letter lower-case extension.\<close>

definition luma_fixed :: "8 word \<Rightarrow> 8 word \<Rightarrow> 8 word \<Rightarrow> 8 word" where
  "luma_fixed b g r =
     word_of_nat ((unat b * 1868 + unat g * 9617 + unat r * 4899 + 8192) div 16384)"

definition repr_example :: "real \<Rightarrow> string" where
  "repr_example x =
     (if x = 0 then ''0.0'' else if x = 1 then ''1.0'' else if x = 1 / 2 then ''0.5''
      else ''1.5'')"

definition read_example :: "string \<Rightarrow> real" where
  "read_example s =
     (if s = ''0.0'' then 0 else if s = ''1.0'' then 1 else if s = ''0.5'' then 1 / 2
      else 3 / 2)"

definition example_env :: env where
  "example_env =
     \<lparr>cv2_present = True,
      splitext_lower = (\<lambda>p. drop (length p - 4) p),
      imread = (\<lambda>p. if p = ''one.png'' then Some bgr_1x1
                     else if p = ''in.png'' then Some bgr_2x2
                     else if p = ''tex.png'' then Some bgr_1x1
                     else None),
      bgr2gray = luma_fixed,
      repr_float = repr_example,
      writable = (\<lambda>p. True)\<rparr>"

definition world0 :: world where
  "world0 = \<lparr>files = Map.empty, stdout = []\<rparr>"

text \<open>Three command lines: a 1 by 1 input without texture; a 2 by 2 input with a
  texture that decodes; the same input with a texture file that cannot be read.\<close>

definition args_one :: args where
  "args_one = \<lparr>arg_input_file = ''one.png'', arg_style = ''modern'',
                arg_texture = None, arg_output = ''output.obj''\<rparr>"

definition args_tex :: args where
  "args_tex = \<lparr>arg_input_file = ''in.png'', arg_style = ''modern'',
                arg_texture = Some ''tex.png'', arg_output = ''output.obj''\<rparr>"

definition args_bad_tex :: args where
  "args_bad_tex = \<lparr>arg_input_file = ''in.png'', arg_style = ''modern'',
                    arg_texture = Some ''missing.png'', arg_output = ''output.obj''\<rparr>"

section \<open>Properties\<close>

subsection \<open>The vertex grid\<close>

lemma fold_snoc_map: "fold (\<lambda>x acc. acc @ [f x]) xs acc = acc @ map f xs"
  by (induction xs arbitrary: acc) simp_all

lemma fold_rows_concat:
  "fold (\<lambda>y acc. fold (\<lambda>x acc. acc @ [f y x]) cols acc) rows acc =
   acc @ concat (map (\<lambda>y. map (f y) cols) rows)"
  by (induction rows arbitrary: acc) (simp_all add: fold_snoc_map)

lemma grid_Suc: "grid f (Suc h) w = grid f h w @ map (f h) [0..<w]"
  by (simp add: grid_def)

lemma length_grid: "length (grid f h w) = h * w"
  by (induction h) (simp_all add: grid_Suc, simp add: grid_def)

lemma nth_grid:
  "row < h \<Longrightarrow> col < w \<Longrightarrow> grid f h w ! (row * w + col) = f row col"
proof (induction h)
  case 0
  then show ?case by simp
next
  case (Suc h)
  show ?case
  proof (cases "row < h")
    case True
    have "row * w + col < Suc row * w" using Suc.prems(2) by simp
    also have "\<dots> \<le> h * w" using True by (simp add: Suc_leI mult_le_mono1 del: mult_Suc)
    finally have "row * w + col < length (grid f h w)" by (simp add: length_grid)
    then show ?thesis using Suc True by (simp add: grid_Suc nth_append)
  next
    case False
    with Suc.prems have "row = h" by simp
    then show ?thesis using Suc.prems(2) by (simp add: grid_Suc nth_append length_grid)
  qed
qed

lemma create_3d_mesh_grid:
  "create_3d_mesh hm =
     (grid (\<lambda>y x. [real x, real y, hm_at hm y x]) (hm_h hm) (hm_w hm), [])"
  by (simp add: create_3d_mesh_def Let_def fold_rows_concat grid_def)

lemma set_grid: "set (grid f h w) = {f y x | y x. y < h \<and> x < w}"
  by (fastforce simp: grid_def)

lemma cell_index_bound:
  assumes "row < h" and "col < w"
  shows "row * w + col < h * (w::nat)"
proof -
  have "row * w + col < Suc row * w" using assms(2) by simp
  also have "\<dots> \<le> h * w" using assms(1) by (simp add: Suc_leI mult_le_mono1 del: mult_Suc)
  finally show ?thesis .
qed

subsection \<open>List comprehensions and style scaling\<close>

lemma comprehension_total:
  "(\<And>v. v \<in> set vs \<Longrightarrow> f v = Inr (g v)) \<Longrightarrow> comprehension f vs = Inr (map g vs)"
  by (induction vs) (simp_all add: err_bind_def)

lemma scaled_vertex_ok:
  "3 \<le> length v \<Longrightarrow> scaled_vertex m v = Inr [v ! 0, v ! 1, v ! 2 * m]"
  by (auto simp add: scaled_vertex_def py_index_def err_bind_def)

subsection \<open>Writing and reading the file\<close>

lemma write_lines_total:
  "(\<And>v. v \<in> set vs \<Longrightarrow> line v = Inr (g v)) \<Longrightarrow>
   write_lines line vs out = (out @ concat (map g vs), None)"
  by (induction vs arbitrary: out) simp_all

lemma vertex_line_ok:
  "3 \<le> length v \<Longrightarrow> vertex_line (repr_float env) v = Inr (vertex_text env v)"
  by (auto simp: vertex_line_def vertex_text_def py_index_def err_bind_def)

lemma face_line_ok:
  "face_line (\<lambda>idx. Inr (str_int (idx + 1))) face = Inr (face_text face)"
  by (simp add: face_line_def face_text_def err_bind_def
        comprehension_total [where g = "\<lambda>idx. str_int (idx + 1)"])

lemma save_obj_ok:
  assumes "writable env p" and "\<And>v. v \<in> set vs \<Longrightarrow> 3 \<le> length v"
  shows "save_obj env (PVertices vs) (PFaces fs) (PStr p) w =
           (w\<lparr>files := (files w)(p \<mapsto> obj_text env vs fs)\<rparr>, None)"
proof -
  have v: "write_vertices env (PVertices vs) [] = (concat (map (vertex_text env) vs), None)"
    using assms(2)
    by (simp add: write_vertices_def write_lines_total [where g = "vertex_text env"] vertex_line_ok)
  have f: "write_faces env (PFaces fs) out = (out @ concat (map face_text fs), None)" for out
    by (simp add: write_faces_def write_lines_total [where g = face_text] face_line_ok)
  show ?thesis
    using assms(1) by (simp add: save_obj_def py_open_w_def v f obj_text_def)
qed

lemma digit_value: "d < 10 \<Longrightarrow> (of_char (digit d) :: nat) - 48 = d"
proof -
  assume "d < 10"
  then have "d \<in> {0, 1, 2, 3, 4, 5, 6, 7, 8, 9}" by auto
  then show ?thesis by (auto simp: digit_def)
qed

lemma digit_chars: "d < 10 \<Longrightarrow> digit d \<in> set ''0123456789''"
  unfolding digit_def by (rule nth_mem) simp

lemma nat_of_digits_snoc:
  "nat_of_digits (s @ [c]) = 10 * nat_of_digits s + (of_char c - 48)"
  by (simp add: nat_of_digits_def)

lemma nat_of_digits_str_nat: "nat_of_digits (str_nat n) = n"
proof (induction n rule: str_nat.induct)
  case (1 n)
  show ?case
  proof (cases "n < 10")
    case True
    then show ?thesis by (simp add: str_nat.simps [of n] nat_of_digits_def digit_value)
  next
    case False
    then have "nat_of_digits (str_nat n) = 10 * (n div 10) + n mod 10"
      using 1 by (simp add: str_nat.simps [of n] nat_of_digits_snoc digit_value)
    then show ?thesis by simp
  qed
qed

lemma set_str_nat: "set (str_nat n) \<subseteq> set ''0123456789''"
proof (induction n rule: str_nat.induct)
  case (1 n)
  show ?case
  proof (cases "n < 10")
    case True
    then show ?thesis using digit_chars [of n] by (simp add: str_nat.simps [of n])
  next
    case False
    then show ?thesis using 1 digit_chars [of "n mod 10"] by (simp add: str_nat.simps [of n])
  qed
qed

lemma str_nat_nonempty: "str_nat n \<noteq> []"
  by (simp add: str_nat.simps [of n])



lemma str_nat_chars: "c \<in> set (str_nat n) \<Longrightarrow> c \<in> set ''0123456789''"
  using set_str_nat [of n] by (rule subsetD)

lemma str_int_chars: "c \<in> set (str_int i) \<Longrightarrow> c = CHR ''-'' \<or> c \<in> set ''0123456789''"
  by (cases "i < 0") (auto simp: str_int_def dest: str_nat_chars)

lemma str_int_nonempty: "str_int i \<noteq> []"
  by (simp add: str_int_def str_nat_nonempty)

lemma str_int_no_sep:
  "CHR '' '' \<notin> set (str_int i)" "CHR 0x0A \<notin> set (str_int i)" "CHR ''/'' \<notin> set (str_int i)"
  using str_int_chars [of _ i] by fastforce+

lemma read_int_str_int: "read_int (str_int i) = i"
proof (cases "i < 0")
  case True
  then show ?thesis by (simp add: str_int_def read_int_def nat_of_digits_str_nat)
next
  case False
  obtain c cs where s: "str_nat (nat i) = c # cs"
    using str_nat_nonempty [of "nat i"] by (cases "str_nat (nat i)") auto
  have "c \<in> set (str_nat (nat i))" using s by simp
  then have "c \<in> set ''0123456789''" by (rule str_nat_chars)
  then have "c \<noteq> CHR ''-''" by auto
  have "nat_of_digits (c # cs) = nat i"
    using nat_of_digits_str_nat [of "nat i"] s by simp
  then show ?thesis
    using False s \<open>c \<noteq> CHR ''-''\<close> by (simp add: str_int_def read_int_def)
qed


lemma split_on_no_sep: "d \<notin> set s \<Longrightarrow> split_on d s = [s]"
  by (induction s) auto

lemma split_on_sep: "d \<notin> set s \<Longrightarrow> split_on d (s @ d # rest) = s # split_on d rest"
  by (induction s) auto

lemma split_lines:
  "(\<And>b. b \<in> set bs \<Longrightarrow> d \<notin> set b) \<Longrightarrow>
   split_on d (concat (map (\<lambda>b. b @ [d]) bs)) = bs @ [[]]"
  by (induction bs) (simp_all add: split_on_sep)

lemma words_of_join:
  "(\<And>t. t \<in> set ts \<Longrightarrow> t \<noteq> [] \<and> CHR '' '' \<notin> set t) \<Longrightarrow>
   words_of (join '' '' ts) = ts"
proof (induction ts rule: induct_list012)
  case 1
  then show ?case by (simp add: words_of_def)
next
  case (2 x)
  then show ?case by (simp add: words_of_def split_on_no_sep)
next
  case (3 x y zs)
  have x: "x \<noteq> []" "CHR '' '' \<notin> set x" using 3(3) by auto
  have "words_of (join '' '' (y # zs)) = y # zs" using 3 by simp
  then show ?case
    using x split_on_sep [of "CHR '' ''" x "join '' '' (y # zs)"]
    by (simp add: words_of_def)
qed

lemma set_join: "c \<in> set (join sep ts) \<Longrightarrow> c \<in> set sep \<or> (\<exists>t \<in> set ts. c \<in> set t)"
  by (induction sep ts rule: join.induct) auto

lemma vertex_text_body:
  "length v = 3 \<Longrightarrow> vertex_text env v = vertex_body env v @ [CHR 0x0A]"
proof -
  assume "length v = 3"
  then obtain a b c where "v = [a, b, c]"
    by (metis length_0_conv length_Suc_conv numeral_3_eq_3)
  then show ?thesis by (simp add: vertex_text_def vertex_body_def)
qed

lemma face_text_body: "face_text face = face_body face @ [CHR 0x0A]"
  by (simp add: face_text_def face_body_def)

lemma words_of_face_body:
  "words_of (face_body face) = ''f'' # map (\<lambda>idx. str_int (idx + 1)) face"
proof (cases face)
  case Nil
  then show ?thesis by (simp add: face_body_def words_of_def)
next
  case (Cons i rest)
  let ?toks = "map (\<lambda>idx. str_int (idx + 1)) face"
  have "face_body face = join '' '' (''f'' # ?toks)"
    using Cons by (simp add: face_body_def)
  moreover have "\<And>t. t \<in> set (''f'' # ?toks) \<Longrightarrow> t \<noteq> [] \<and> CHR '' '' \<notin> set t"
    using str_int_nonempty str_int_no_sep(1) by auto
  ultimately show ?thesis using words_of_join [of "''f'' # ?toks"] by simp
qed

lemma newline_face_body: "CHR 0x0A \<notin> set (face_body face)"
proof
  assume "CHR 0x0A \<in> set (face_body face)"
  then have "CHR 0x0A \<in> set (join '' '' (map (\<lambda>idx. str_int (idx + 1)) face))"
    by (simp add: face_body_def)
  then show False using str_int_no_sep(2) by (auto dest!: set_join)
qed

lemma parse_face_body:
  "parse_line rd (face_body face) (vs, uvs, fs) = (vs, uvs, fs @ [face])"
proof -
  have tw: "takeWhile (\<lambda>c. c \<noteq> CHR ''/'') (str_int i) = str_int i" for i
    using str_int_no_sep(3) [of i] by (auto simp add: takeWhile_eq_all_conv)
  have "map (\<lambda>tok. read_int (takeWhile (\<lambda>c. c \<noteq> CHR ''/'') tok) - 1)
               (map (\<lambda>idx. str_int (idx + 1)) face) = face"
    by (simp add: comp_def tw read_int_str_int)
  then show ?thesis by (simp add: parse_line_def words_of_face_body)
qed

lemma words_of_vertex_body:
  assumes "\<And>x. x \<in> set v \<Longrightarrow> float_text_ok env rd x"
  shows "words_of (vertex_body env v) = ''v'' # map (repr_float env) v"
  unfolding vertex_body_def
  using assms by (intro words_of_join) (auto simp: float_text_ok_def)

lemma newline_vertex_body:
  assumes "\<And>x. x \<in> set v \<Longrightarrow> float_text_ok env rd x"
  shows "CHR 0x0A \<notin> set (vertex_body env v)"
proof
  assume "CHR 0x0A \<in> set (vertex_body env v)"
  then show False
    using assms unfolding vertex_body_def by (auto dest!: set_join simp: float_text_ok_def)
qed

lemma parse_vertex_body:
  assumes "length v = 3" and "\<And>x. x \<in> set v \<Longrightarrow> float_text_ok env rd x"
  shows "parse_line rd (vertex_body env v) (vs, uvs, fs) = (vs @ [v], uvs, fs)"
proof -
  have "map rd (map (repr_float env) v) = v"
    using assms(2) by (simp add: float_text_ok_def map_idI)
  then show ?thesis
    using assms by (simp add: parse_line_def words_of_vertex_body [of v env rd])
qed

lemma fold_parse_vertices:
  assumes "\<And>v. v \<in> set vs \<Longrightarrow> length v = 3 \<and> (\<forall>x \<in> set v. float_text_ok env rd x)"
  shows "fold (parse_line rd) (map (vertex_body env) vs) (V, U, F) = (V @ vs, U, F)"
  using assms
proof (induction vs arbitrary: V)
  case Nil
  then show ?case by simp
next
  case (Cons a vs)
  have "parse_line rd (vertex_body env a) (V, U, F) = (V @ [a], U, F)"
    using Cons.prems by (intro parse_vertex_body) auto
  moreover have "fold (parse_line rd) (map (vertex_body env) vs) (V @ [a], U, F) =
                   ((V @ [a]) @ vs, U, F)"
    using Cons.prems by (intro Cons.IH) auto
  ultimately show ?case by simp
qed

lemma fold_parse_faces:
  "fold (parse_line rd) (map face_body fs) (V, U, F) = (V, U, F @ fs)"
  by (induction fs arbitrary: F) (simp_all add: parse_face_body)

lemma parse_empty_line: "parse_line rd [] acc = acc"
  by (simp add: parse_line_def words_of_def split: prod.splits)

lemma parse_obj_text:
  assumes "\<And>v. v \<in> set vs \<Longrightarrow> length v = 3 \<and> (\<forall>x \<in> set v. float_text_ok env rd x)"
  shows "parse_obj rd (obj_text env vs fs) = (vs, [], fs)"
proof -
  let ?bodies = "map (vertex_body env) vs @ map face_body fs"
  have "obj_text env vs fs = concat (map (\<lambda>b. b @ [CHR 0x0A]) ?bodies)"
    using assms by (simp add: obj_text_def vertex_text_body face_text_body comp_def cong: map_cong)
  moreover have "\<And>b. b \<in> set ?bodies \<Longrightarrow> CHR 0x0A \<notin> set b"
    using assms newline_face_body newline_vertex_body [of _ env rd] by auto
  ultimately have "split_on (CHR 0x0A) (obj_text env vs fs) = ?bodies @ [[]]"
    using split_lines [of ?bodies "CHR 0x0A"] by simp
  then show ?thesis
    using assms by (simp add: parse_obj_def fold_parse_vertices fold_parse_faces parse_empty_line)
qed

subsection \<open>The pipeline\<close>

lemma load_image_cv2: "load_image env p = Inr img \<Longrightarrow> cv2_present env"
  by (auto simp: load_image_def Let_def split: if_splits)

lemma generate_height_map_ok:
  assumes "cv2_present env" and "0 < img_h img" and "0 < img_w img"
    and "img_c img = 3 \<or> img_c img = 4"
  shows "generate_height_map env img =
           Inr \<lparr>hm_h = img_h img, hm_w = img_w img,
                hm_at = (\<lambda>y x. real (unat (bgr2gray env (img_at img y x 0) (img_at img y x 1)
                                                (img_at img y x 2))) / 255)\<rparr>"
  using assms by (auto simp: generate_height_map_def cvtColor_BGR2GRAY_def err_bind_def)

lemma apply_style_mesh:
  "apply_style (fst (create_3d_mesh hm)) style =
     Inr (map (\<lambda>v. [v ! 0, v ! 1, v ! 2 * style_multiplier style]) (fst (create_3d_mesh hm)))"
proof -
  let ?g = "grid (\<lambda>y x. [real x, real y, hm_at hm y x]) (hm_h hm) (hm_w hm)"
  have three: "\<And>v. v \<in> set ?g \<Longrightarrow> 3 \<le> length v" by (auto simp: set_grid)
  have "apply_style ?g style =
          Inr (map (\<lambda>v. [v ! 0, v ! 1, v ! 2 * style_multiplier style]) ?g)"
  proof (cases "style = ''classic'' \<or> style = ''nostalgic''")
    case True
    then show ?thesis
      using three
      by (auto simp: apply_style_def comprehension_total scaled_vertex_ok style_multiplier_def)
  next
    case False
    have "map (\<lambda>v. [v ! 0, v ! 1, v ! 2 * style_multiplier style]) ?g = ?g"
      using False by (auto simp: style_multiplier_def set_grid intro!: map_idI)
    then show ?thesis using False by (simp add: apply_style_def)
  qed
  then show ?thesis by (simp add: create_3d_mesh_grid)
qed

lemma length_pipeline_vertices:
  "length (pipeline_vertices env img style) = img_w img * img_h img"
  by (simp add: pipeline_vertices_def length_grid mult.commute)

lemma main_writes_vertices:
  assumes "load_image env (arg_input_file a) = Inr img"
    and "0 < img_h img" and "0 < img_w img" and "img_c img = 3 \<or> img_c img = 4"
    and "arg_style a \<in> set style_choices"
    and "writable env (arg_output a)"
    and "arg_texture a = None \<or> (\<exists>tex. load_image env (the (arg_texture a)) = Inr tex)"
  shows "main env a w =
           (w\<lparr>files := (files w)(arg_output a \<mapsto>
                             obj_text env (pipeline_vertices env img (arg_style a)) []),
              stdout := stdout w @ [''Model saved to '' @ arg_output a]\<rparr>, None)"
proof -
  define hm where "hm = \<lparr>hm_h = img_h img, hm_w = img_w img,
              hm_at = (\<lambda>y x. real (unat (bgr2gray env (img_at img y x 0) (img_at img y x 1)
                                              (img_at img y x 2))) / 255)\<rparr>"
  define verts where "verts = fst (create_3d_mesh hm)"
  define vs where "vs = pipeline_vertices env img (arg_style a)"
  have gen: "generate_height_map env img = Inr hm"
    unfolding hm_def using assms load_image_cv2 [OF assms(1)] by (intro generate_height_map_ok)
  have mesh: "create_3d_mesh hm = (verts, [])"
    by (simp add: verts_def create_3d_mesh_grid)
  have "vs = map (\<lambda>v. [v ! 0, v ! 1, v ! 2 * style_multiplier (arg_style a)]) verts"
    by (simp add: vs_def verts_def hm_def pipeline_vertices_def create_3d_mesh_grid)
  then have sty: "apply_style verts (arg_style a) = Inr vs"
    unfolding verts_def by (simp add: apply_style_mesh)
  have tex: "(if truthy (arg_texture a)
              then err_bind (load_image env (the (arg_texture a)))
                     (\<lambda>texture_img. Inr (apply_texture vs texture_img))
              else Inr vs) = Inr vs"
    using assms(7) by (auto simp: truthy_def err_bind_def apply_texture_def)
  have "\<And>v. v \<in> set vs \<Longrightarrow> 3 \<le> length v" by (auto simp: vs_def pipeline_vertices_def)
  then have save: "save_obj env (PVertices vs) (PFaces []) (PStr (arg_output a)) w =
                (w\<lparr>files := (files w)(arg_output a \<mapsto> obj_text env vs [])\<rparr>, None)"
    using assms(6) by (intro save_obj_ok)
  show ?thesis
    unfolding main_def vs_def [symmetric] using assms(5) by (simp add: assms(1) gen mesh sty tex save)
qed

lemma upt_0_2: "[0..<2] = [0, Suc 0]"
  by (simp add: numeral_2_eq_2 upt_rec)

lemmas pipeline_defs = load_image_def truthy_def style_choices_def generate_height_map_def
  cvtColor_BGR2GRAY_def err_bind_def create_3d_mesh_def apply_style_def apply_texture_def
  save_obj_def py_open_w_def write_vertices_def write_faces_def vertex_line_def face_line_def
  py_index_def

lemmas example_defs = example_env_def world0_def bgr_1x1_def bgr_2x2_def luma_fixed_def
  repr_example_def upt_0_2

lemmas parse_defs = parse_obj_def parse_line_def words_of_def read_int_def nat_of_digits_def

section \<open>The claims\<close>

text \<open>
  C1 (as amended). For every height field of width W and height H, \<open>create_3d_mesh\<close>
  returns exactly W*H vertices and an empty face list: no triangle is generated, so no
  face index is out of range.
\<close>

theorem create_3d_mesh_counts:
  "length (fst (create_3d_mesh hm)) = hm_w hm * hm_h hm \<and> snd (create_3d_mesh hm) = []"
  by (simp add: create_3d_mesh_grid length_grid mult.commute)

text \<open>
  C1 as stated fails: on the 2 by 2 height field of zero samples the number of faces is
  not 2*(W-1)*(H-1) = 2.
\<close>

theorem create_3d_mesh_faces_counterexample:
  "length (snd (create_3d_mesh flat_2x2)) \<noteq> 2 * (hm_w flat_2x2 - 1) * (hm_h flat_2x2 - 1)"
  by (simp add: create_3d_mesh_grid flat_2x2_def)

text \<open>
  C2 (as amended). The code has no \<open>InvalidHeightField\<close> error and rejects no grid
  for its size: for every input image that loads (non-empty, 3 or 4 channels), whatever
  its width W and height H, including W < 2 or H < 2, when the style is one of the three
  choices, no texture is given and the output path is writable, the command-line pipeline
  ends without error, having written the output file with one \<open>v\<close> line for each of
  the W*H vertices and no \<open>f\<close> line.
\<close>

theorem main_small_grid_succeeds:
  assumes "load_image env (arg_input_file a) = Inr img"
    and "0 < img_h img" and "0 < img_w img" and "img_c img = 3 \<or> img_c img = 4"
    and "arg_style a \<in> set style_choices"
    and "\<not> truthy (arg_texture a)"
    and "writable env (arg_output a)"
  shows "\<exists>vs. length vs = img_w img * img_h img \<and>
           main env a w =
             (w\<lparr>files := (files w)(arg_output a \<mapsto> obj_text env vs []),
                stdout := stdout w @ [''Model saved to '' @ arg_output a]\<rparr>, None)"
proof -
  define hm where "hm = \<lparr>hm_h = img_h img, hm_w = img_w img,
              hm_at = (\<lambda>y x. real (unat (bgr2gray env (img_at img y x 0) (img_at img y x 1)
                                              (img_at img y x 2))) / 255)\<rparr>"
  define verts where "verts = fst (create_3d_mesh hm)"
  define vs where
    "vs = map (\<lambda>v. [v ! 0, v ! 1, v ! 2 * style_multiplier (arg_style a)]) verts"
  have gen: "generate_height_map env img = Inr hm"
    unfolding hm_def using assms load_image_cv2 [OF assms(1)] by (intro generate_height_map_ok)
  have mesh: "create_3d_mesh hm = (verts, [])"
    by (simp add: verts_def create_3d_mesh_grid)
  have sty: "apply_style verts (arg_style a) = Inr vs"
    unfolding verts_def vs_def by (rule apply_style_mesh)
  have len: "length vs = img_w img * img_h img"
    by (simp add: vs_def verts_def hm_def create_3d_mesh_grid length_grid mult.commute)
  have "\<And>v. v \<in> set vs \<Longrightarrow> 3 \<le> length v" by (auto simp: vs_def)
  then have save: "save_obj env (PVertices vs) (PFaces []) (PStr (arg_output a)) w =
                (w\<lparr>files := (files w)(arg_output a \<mapsto> obj_text env vs [])\<rparr>, None)"
    using assms(7) by (intro save_obj_ok)
  have "main env a w =
          (w\<lparr>files := (files w)(arg_output a \<mapsto> obj_text env vs []),
             stdout := stdout w @ [''Model saved to '' @ arg_output a]\<rparr>, None)"
    unfolding main_def using assms(5,6) by (simp add: assms(1) gen mesh sty save)
  with len show ?thesis by blast
qed

theorem main_small_grid_succeeds_witness:
  "load_image example_env (arg_input_file args_one) = Inr bgr_1x1
   \<and> img_h bgr_1x1 = 1 \<and> img_w bgr_1x1 = 1 \<and> img_c bgr_1x1 = 3
   \<and> arg_style args_one \<in> set style_choices
   \<and> \<not> truthy (arg_texture args_one)
   \<and> writable example_env (arg_output args_one)
   \<and> (\<exists>vs. length vs = 1 \<and>
          main example_env args_one world0 =
            (world0\<lparr>files := (files world0)(''output.obj'' \<mapsto> obj_text example_env vs []),
                    stdout := stdout world0 @ [''Model saved to output.obj'']\<rparr>, None))"
  using main_small_grid_succeeds [of example_env args_one bgr_1x1 world0]
  by (simp add: example_env_def args_one_def load_image_def bgr_1x1_def style_choices_def truthy_def)

text \<open>
  C2 as stated fails: for a 1 by 1 input image (W < 2 and H < 2) the pipeline raises no
  error and writes the output file.
\<close>

theorem main_small_grid_counterexample:
  "load_image example_env (arg_input_file args_one) = Inr bgr_1x1
   \<and> img_w bgr_1x1 < 2 \<and> img_h bgr_1x1 < 2
   \<and> snd (main example_env args_one world0) = None
   \<and> files (fst (main example_env args_one world0)) ''output.obj'' = Some ''v 0.0 0.0 1.0\<newline>''"
  by (simp add: main_def pipeline_defs example_defs args_one_def)

text \<open>
  C3. For a list of vertices that each have their three components, \<open>apply_style\<close> with
  style "classic" returns, index by index, the vertex with the same x and y and with z
  multiplied by 0.5; with "nostalgic", z multiplied by 1.5; with "modern" it returns the
  input sequence itself. The output has the length of the input.
\<close>

theorem apply_style_three_styles:
  assumes "\<forall>v \<in> set vertices. 3 \<le> length v"
  shows "apply_style vertices ''classic'' = Inr (map (\<lambda>v. [v ! 0, v ! 1, v ! 2 * 0.5]) vertices)
       \<and> apply_style vertices ''nostalgic'' = Inr (map (\<lambda>v. [v ! 0, v ! 1, v ! 2 * 1.5]) vertices)
       \<and> apply_style vertices ''modern'' = Inr vertices"
  using assms by (simp add: apply_style_def comprehension_total scaled_vertex_ok)

theorem apply_style_three_styles_witness:
  "3 \<le> length [1, 2, 4::real] \<and> 3 \<le> length [0, 1, 2::real]
   \<and> apply_style [[1, 2, 4], [0, 1, 2]] ''classic'' = Inr [[1, 2, 2], [0, 1, 1]]
   \<and> apply_style [[1, 2, 4], [0, 1, 2]] ''nostalgic'' = Inr [[1, 2, 6], [0, 1, 3]]
   \<and> apply_style [[1, 2, 4], [0, 1, 2]] ''modern'' = Inr [[1, 2, 4], [0, 1, 2]]"
  using apply_style_three_styles [of "[[1, 2, 4], [0, 1, 2]]"] by simp

text \<open>
  C4 (as amended). When a texture image is supplied and loads, \<open>apply_texture\<close> returns
  the vertex sequence unchanged and computes no UV coordinates: the result of the
  command-line pipeline, output file included, is the one of the run without a texture.
  No UV coordinates are produced, with or without a texture: when the input image loads
  (non-empty, 3 or 4 channels), the style is one of the three choices and the output path
  is writable, both runs end without error and the file written consists of exactly the
  \<open>v\<close> lines of the W*H vertices, with no \<open>vt\<close> line and no \<open>f\<close> line.
\<close>

theorem main_texture_ignored:
  assumes "t \<noteq> []" and "load_image env t = Inr tex"
  shows "apply_texture vs tex = vs
       \<and> main env (a\<lparr>arg_texture := Some t\<rparr>) w = main env (a\<lparr>arg_texture := None\<rparr>) w
       \<and> (load_image env (arg_input_file a) = Inr img \<and> 0 < img_h img \<and> 0 < img_w img
            \<and> (img_c img = 3 \<or> img_c img = 4) \<and> arg_style a \<in> set style_choices
            \<and> writable env (arg_output a)
          \<longrightarrow> (\<exists>vs'. length vs' = img_w img * img_h img
                 \<and> main env (a\<lparr>arg_texture := Some t\<rparr>) w =
                     (w\<lparr>files := (files w)(arg_output a \<mapsto> obj_text env vs' []),
                        stdout := stdout w @ [''Model saved to '' @ arg_output a]\<rparr>, None)
                 \<and> main env (a\<lparr>arg_texture := None\<rparr>) w =
                     (w\<lparr>files := (files w)(arg_output a \<mapsto> obj_text env vs' []),
                        stdout := stdout w @ [''Model saved to '' @ arg_output a]\<rparr>, None)))"
proof (intro conjI impI)
  show "apply_texture vs tex = vs" by (simp add: apply_texture_def)
  show "main env (a\<lparr>arg_texture := Some t\<rparr>) w = main env (a\<lparr>arg_texture := None\<rparr>) w"
    using assms
    by (auto simp: main_def truthy_def apply_texture_def err_bind_def
             split: sum.splits prod.splits option.splits)
next
  assume ok: "load_image env (arg_input_file a) = Inr img \<and> 0 < img_h img \<and> 0 < img_w img
            \<and> (img_c img = 3 \<or> img_c img = 4) \<and> arg_style a \<in> set style_choices
            \<and> writable env (arg_output a)"
  let ?vs = "pipeline_vertices env img (arg_style a)"
  have with_tex: "main env (a\<lparr>arg_texture := Some t\<rparr>) w =
          (w\<lparr>files := (files w)(arg_output a \<mapsto> obj_text env ?vs []),
             stdout := stdout w @ [''Model saved to '' @ arg_output a]\<rparr>, None)"
    using main_writes_vertices [of env "a\<lparr>arg_texture := Some t\<rparr>" img w] ok assms(2)
    by simp
  have without: "main env (a\<lparr>arg_texture := None\<rparr>) w =
          (w\<lparr>files := (files w)(arg_output a \<mapsto> obj_text env ?vs []),
             stdout := stdout w @ [''Model saved to '' @ arg_output a]\<rparr>, None)"
    using main_writes_vertices [of env "a\<lparr>arg_texture := None\<rparr>" img w] ok
    by simp
  show "\<exists>vs'. length vs' = img_w img * img_h img
          \<and> main env (a\<lparr>arg_texture := Some t\<rparr>) w =
              (w\<lparr>files := (files w)(arg_output a \<mapsto> obj_text env vs' []),
                 stdout := stdout w @ [''Model saved to '' @ arg_output a]\<rparr>, None)
          \<and> main env (a\<lparr>arg_texture := None\<rparr>) w =
              (w\<lparr>files := (files w)(arg_output a \<mapsto> obj_text env vs' []),
                 stdout := stdout w @ [''Model saved to '' @ arg_output a]\<rparr>, None)"
    using with_tex without length_pipeline_vertices [of env img "arg_style a"] by blast
qed

theorem main_texture_ignored_witness:
  "''tex.png'' \<noteq> [] \<and> load_image example_env ''tex.png'' = Inr bgr_1x1
   \<and> load_image example_env (arg_input_file args_tex) = Inr bgr_2x2
   \<and> 0 < img_h bgr_2x2 \<and> 0 < img_w bgr_2x2 \<and> img_c bgr_2x2 = 3
   \<and> arg_style args_tex \<in> set style_choices
   \<and> writable example_env (arg_output args_tex)
   \<and> apply_texture [[0, 0, 1]] bgr_1x1 = [[0, 0, 1]]
   \<and> main example_env (args_tex\<lparr>arg_texture := Some ''tex.png''\<rparr>) world0 =
       main example_env (args_tex\<lparr>arg_texture := None\<rparr>) world0
   \<and> (\<exists>vs'. length vs' = img_w bgr_2x2 * img_h bgr_2x2
          \<and> main example_env (args_tex\<lparr>arg_texture := Some ''tex.png''\<rparr>) world0 =
              (world0\<lparr>files := (files world0)(arg_output args_tex \<mapsto>
                                       obj_text example_env vs' []),
                      stdout := stdout world0 @ [''Model saved to '' @ arg_output args_tex]\<rparr>,
               None)
          \<and> main example_env (args_tex\<lparr>arg_texture := None\<rparr>) world0 =
              (world0\<lparr>files := (files world0)(arg_output args_tex \<mapsto>
                                       obj_text example_env vs' []),
                      stdout := stdout world0 @ [''Model saved to '' @ arg_output args_tex]\<rparr>,
               None))"
proof -
  have t: "''tex.png'' \<noteq> []" by simp
  have l: "load_image example_env ''tex.png'' = Inr bgr_1x1"
    by (simp add: example_env_def load_image_def)
  have i: "load_image example_env (arg_input_file args_tex) = Inr bgr_2x2"
    by (simp add: example_env_def args_tex_def load_image_def)
  have d: "0 < img_h bgr_2x2" "0 < img_w bgr_2x2" "img_c bgr_2x2 = 3"
    by (simp_all add: bgr_2x2_def)
  have s: "arg_style args_tex \<in> set style_choices"
    by (simp add: args_tex_def style_choices_def)
  have o: "writable example_env (arg_output args_tex)"
    by (simp add: example_env_def)
  show ?thesis
    using main_texture_ignored [OF t l, of "[[0, 0, 1]]" args_tex world0 bgr_2x2] t l i d s o
    by blast
qed

text \<open>
  C4 as stated fails: for a 2 by 2 input with a texture that loads, the output file has
  four \<open>v\<close> lines and no \<open>vt\<close> line, so the UV sequence read back from it is empty,
  whereas the claimed sequence for a 2 by 2 grid has four entries.
\<close>

theorem texture_uv_counterexample:
  "truthy (arg_texture args_tex)
   \<and> load_image example_env ''tex.png'' = Inr bgr_1x1
   \<and> files (fst (main example_env args_tex world0)) ''output.obj'' =
        Some ''v 0.0 0.0 1.0\<newline>v 1.0 0.0 0.0\<newline>v 0.0 1.0 0.0\<newline>v 1.0 1.0 1.0\<newline>''
   \<and> fst (snd (parse_obj read_example
        ''v 0.0 0.0 1.0\<newline>v 1.0 0.0 0.0\<newline>v 0.0 1.0 0.0\<newline>v 1.0 1.0 1.0\<newline>'')) = []
   \<and> planar_uvs 2 2 = [(0, 0), (1, 0), (0, 1), (1, 1)]"
  by (simp add: main_def pipeline_defs example_defs args_tex_def parse_defs read_example_def
        planar_uvs_def)

text \<open>
  C5 (the code at the failing input). With a texture path that cannot be read,
  \<open>load_image\<close> raises \<open>FileNotFoundError\<close>; \<open>main\<close> does not catch it, so the
  command-line pipeline ends with that error and writes no file, whereas the run without
  a texture writes the output file. The texture block of app.py catches the same error
  and keeps the vertices, with a warning.
\<close>

theorem main_texture_failure_aborts:
  "load_image example_env ''missing.png'' = Inl FileNotFoundError
   \<and> main example_env args_bad_tex world0 = (world0, Some FileNotFoundError)
   \<and> main example_env (args_bad_tex\<lparr>arg_texture := None\<rparr>) world0 =
       (\<lparr>files = [''output.obj'' \<mapsto>
            ''v 0.0 0.0 1.0\<newline>v 1.0 0.0 0.0\<newline>v 0.0 1.0 0.0\<newline>v 1.0 1.0 1.0\<newline>''],
         stdout = [''Model saved to output.obj'']\<rparr>, None)
   \<and> app_texture_block example_env (Some ''missing.png'') [[0, 0, 1]] =
       ([[0, 0, 1]], Some FileNotFoundError)"
  by (simp add: main_def app_texture_block_def pipeline_defs example_defs args_bad_tex_def)

text \<open>
  C6 (as amended). For every decoded, non-empty 8-bit image of 3 or 4 channels,
  \<open>generate_height_map\<close> returns a grid of the same height and width as the image,
  whose sample at each pixel is the pixel's 8-bit luminance divided by 255, hence in
  [0, 1].
\<close>

theorem generate_height_map_unit_range:
  assumes "cv2_present env" and "0 < img_h img" and "0 < img_w img"
    and "img_c img = 3 \<or> img_c img = 4"
  shows "\<exists>hm. generate_height_map env img = Inr hm
            \<and> hm_h hm = img_h img \<and> hm_w hm = img_w img
            \<and> (\<forall>y x. hm_at hm y x =
                        real (unat (bgr2gray env (img_at img y x 0) (img_at img y x 1)
                                                 (img_at img y x 2))) / 255
                    \<and> 0 \<le> hm_at hm y x \<and> hm_at hm y x \<le> 1)"
proof -
  have r: "(unsigned g :: real) \<le> 255" for g :: "8 word"
  proof -
    have "unat g < 2 ^ 8"
      using unsigned_less [of g, where ?'a = nat] by simp
    then have "unat g \<le> 255" by simp
    then have "real (unat g) \<le> real 255" by (rule of_nat_mono)
    then show ?thesis by simp
  qed
  have p: "0 \<le> (unsigned g :: real)" for g :: "8 word"
  proof -
    have "0 \<le> real (unat g)" by (rule of_nat_0_le_iff)
    then show ?thesis by simp
  qed
  show ?thesis
    using assms r p by (simp add: generate_height_map_ok)
qed

theorem generate_height_map_unit_range_witness:
  "cv2_present example_env \<and> 0 < img_h bgr_1x1 \<and> 0 < img_w bgr_1x1 \<and> img_c bgr_1x1 = 3
   \<and> (\<exists>hm. generate_height_map example_env bgr_1x1 = Inr hm
          \<and> hm_h hm = 1 \<and> hm_w hm = 1 \<and> hm_at hm 0 0 = 1)"
  using generate_height_map_unit_range [of example_env bgr_1x1]
  by (auto simp add: example_env_def bgr_1x1_def luma_fixed_def)

text \<open>
  C6 as stated fails: a single-channel image is not passed through;
  \<open>cv2.cvtColor\<close> with \<open>COLOR_BGR2GRAY\<close> rejects it.
\<close>

theorem generate_height_map_gray_counterexample:
  "cv2_present example_env \<and> img_c gray_1x1 = 1
   \<and> generate_height_map example_env gray_1x1 = Inl Cv2Error"
  by (simp add: pipeline_defs example_defs gray_1x1_def)

text \<open>
  C7. For every height field of dimensions W by H and every cell (row, col) of its grid,
  the vertex at position row*W + col of the sequence that \<open>create_3d_mesh\<close> returns is
  (col, row, sample at (row, col)); \<open>apply_style\<close> succeeds on that sequence for every
  style, and after \<open>apply_style\<close> and \<open>apply_texture\<close> the vertex at position
  row*W + col still has x = col and y = row, and z is the sample times the style's
  multiplier. The sequence keeps its W*H elements.
\<close>

theorem vertex_index_identity:
  assumes "row < hm_h hm" and "col < hm_w hm"
  shows "fst (create_3d_mesh hm) ! (row * hm_w hm + col) = [real col, real row, hm_at hm row col]
       \<and> (\<exists>vs. apply_style (fst (create_3d_mesh hm)) style = Inr vs
              \<and> length vs = hm_w hm * hm_h hm
              \<and> apply_texture vs tex ! (row * hm_w hm + col) =
                    [real col, real row, hm_at hm row col * style_multiplier style])"
proof -
  let ?g = "grid (\<lambda>y x. [real x, real y, hm_at hm y x]) (hm_h hm) (hm_w hm)"
  let ?i = "row * hm_w hm + col"
  have mesh: "fst (create_3d_mesh hm) = ?g" by (simp add: create_3d_mesh_grid)
  have cell: "?g ! ?i = [real col, real row, hm_at hm row col]"
    using assms by (simp add: nth_grid)
  have bound: "?i < length ?g"
    using assms by (simp add: length_grid cell_index_bound)
  have sty: "apply_style ?g style =
          Inr (map (\<lambda>v. [v ! 0, v ! 1, v ! 2 * style_multiplier style]) ?g)"
    using apply_style_mesh [of hm style] by (simp add: mesh)
  show ?thesis
    using cell bound by (simp add: mesh sty apply_texture_def length_grid mult.commute)
qed

theorem vertex_index_identity_witness:
  "(1::nat) < hm_h ramp_2x3 \<and> (2::nat) < hm_w ramp_2x3
   \<and> fst (create_3d_mesh ramp_2x3) ! 5 = [2, 1, 3 / 4]
   \<and> (\<exists>vs. apply_style (fst (create_3d_mesh ramp_2x3)) ''classic'' = Inr vs
          \<and> length vs = 6
          \<and> apply_texture vs bgr_1x1 ! 5 = [2, 1, 3 / 8])"
  using vertex_index_identity [of 1 ramp_2x3 2 "''classic''" bgr_1x1]
  by (simp add: ramp_2x3_def style_multiplier_def)

text \<open>
  C8 (as amended). For every mesh without UVs whose vertices have exactly three
  components, whose float texts can be read back, and for a writable path: serialising
  with \<open>save_obj\<close> succeeds, and parsing the \<open>v\<close> and \<open>f\<close> lines of the written file
  gives back the same vertices and the same faces (written 1-based, read back 0-based),
  and no UV.
\<close>

theorem save_obj_roundtrip:
  assumes "writable env p"
    and "\<forall>v \<in> set vs. length v = 3 \<and> (\<forall>x \<in> set v. float_text_ok env rd x)"
  shows "\<exists>w' text. serialize_mesh env (vs, [], fs) p w = (w', None)
            \<and> files w' p = Some text \<and> parse_obj rd text = (vs, [], fs)"
proof -
  have "save_obj env (PVertices vs) (PFaces fs) (PStr p) w =
          (w\<lparr>files := (files w)(p \<mapsto> obj_text env vs fs)\<rparr>, None)"
    using assms by (intro save_obj_ok) auto
  moreover have "parse_obj rd (obj_text env vs fs) = (vs, [], fs)"
    using assms(2) by (intro parse_obj_text) auto
  ultimately show ?thesis by (simp add: serialize_mesh_def)
qed

theorem save_obj_roundtrip_witness:
  "writable example_env ''output.obj''
   \<and> float_text_ok example_env read_example 0
   \<and> float_text_ok example_env read_example 1
   \<and> float_text_ok example_env read_example (1 / 2)
   \<and> (\<exists>w' text. serialize_mesh example_env ([[0, 0, 1], [1, 0, 1 / 2], [0, 1, 0]], [], [[0, 1, 2]])
                    ''output.obj'' world0 = (w', None)
          \<and> files w' ''output.obj'' = Some text
          \<and> parse_obj read_example text = ([[0, 0, 1], [1, 0, 1 / 2], [0, 1, 0]], [], [[0, 1, 2]]))"
  using save_obj_roundtrip [of example_env "''output.obj''" "[[0, 0, 1], [1, 0, 1 / 2], [0, 1, 0]]"
          read_example "[[0, 1, 2]]" world0]
  by (simp add: float_text_ok_def example_env_def repr_example_def read_example_def)

text \<open>
  C8 as stated fails: \<open>save_obj\<close> takes no UV sequence and writes no \<open>vt\<close> line, so a
  mesh with one vertex and one UV is read back with no UV.
\<close>

theorem save_obj_uv_counterexample:
  "files (fst (serialize_mesh example_env ([[0, 0, 1]], [(0, 0)], []) ''output.obj'' world0))
     ''output.obj'' = Some ''v 0.0 0.0 1.0\<newline>''
   \<and> parse_obj read_example ''v 0.0 0.0 1.0\<newline>'' = ([[0, 0, 1]], [], [])
   \<and> parse_obj read_example ''v 0.0 0.0 1.0\<newline>'' \<noteq> ([[0, 0, 1]], [(0, 0)], [])"
  by (simp add: serialize_mesh_def pipeline_defs example_defs parse_defs read_example_def)

text \<open>
  C9. The call of \<open>save_obj\<close> in the Convert flow of app.py passes (output path, vertex
  list, face list) to the parameters (vertices, faces, output_path). For every output
  path, vertex list, face list and state of the file system, the face list is what
  \<open>open\<close> receives as the path: the call raises \<open>TypeError\<close> and no file is written.
\<close>

theorem app_save_step_type_error:
  "app_save_step env output_path vertices_styled faces w = (w, Some TypeError)"
  by (simp add: app_save_step_def save_obj_def py_open_w_def)

text \<open>
  C10. For every style string other than "classic" and "nostalgic", recognised or not,
  \<open>apply_style\<close> raises no error and returns its input vertex list unchanged, whatever
  the vertices are.
\<close>

theorem apply_style_fallthrough:
  "style \<noteq> ''classic'' \<Longrightarrow> style \<noteq> ''nostalgic'' \<Longrightarrow> apply_style vertices style = Inr vertices"
  by (simp add: apply_style_def)

theorem apply_style_fallthrough_witness:
  "''baroque'' \<noteq> ''classic'' \<and> ''baroque'' \<noteq> ''nostalgic'' \<and>
   apply_style [[1, 2, 3], [4]] ''baroque'' = Inr [[1, 2, 3], [4]]"
  using apply_style_fallthrough [of "''baroque''" "[[1, 2, 3], [4]]"] by simp

end
